theory Spec2Isabelle
  imports Complex_Main "HOL-Library.Multiset"
begin

section \<open>Builtin evaluation of libminizinc (src/lib/builtins.cpp)\<close>

text \<open>
  The builtins of \<^verbatim>\<open>src/lib/builtins.cpp\<close> receive a call whose arguments are
  expressions and force them with \<^verbatim>\<open>eval_array_lit\<close>, \<^verbatim>\<open>eval_int\<close>,
  \<^verbatim>\<open>eval_float\<close> and \<^verbatim>\<open>eval_par\<close>. Those evaluators live in
  \<^verbatim>\<open>eval_par.cpp\<close>, which is not among the sources, so an array argument is
  represented by the list of values its elements evaluate to, in element order.

  \<^verbatim>\<open>IntVal\<close> (\<^verbatim>\<open>values.hh\<close>, not among the sources) is taken as the
  mathematical integers: \<open>+\<close> and \<open>*\<close> are exact and \<open>/\<close> truncates towards zero
  as the C++ operator does. \<^verbatim>\<open>FloatVal\<close> is used by the functions below only
  through \<open><\<close> and \<open>>\<close>; it is an arbitrary linearly ordered type (no NaN). Array
  positions are natural numbers (the source keeps them in \<^verbatim>\<open>unsigned int\<close> and
  \<^verbatim>\<open>int\<close>, exact for arrays of fewer than \<open>2^31\<close> elements).

  A C++ exception is a value \<open>Inl\<close> of the result.
\<close>

datatype error =
    EvalError string
  | ResultUndefinedError string

text \<open>\<^verbatim>\<open>std::min(a,b)\<close> is \<^verbatim>\<open>(b < a) ? b : a\<close> and
  \<^verbatim>\<open>std::max(a,b)\<close> is \<^verbatim>\<open>(a < b) ? b : a\<close>.\<close>

definition std_min :: "'a::linorder \<Rightarrow> 'a \<Rightarrow> 'a" where
  "std_min a b = (if b < a then b else a)"

definition std_max :: "'a::linorder \<Rightarrow> 'a \<Rightarrow> 'a" where
  "std_max a b = (if a < b then b else a)"

subsection \<open>\<^verbatim>\<open>min\<close> and \<^verbatim>\<open>max\<close>\<close>

text \<open>
  What \<^verbatim>\<open>b_int_min\<close> and its siblings read of a call: \<^verbatim>\<open>call->n_args()\<close>,
  for one argument \<^verbatim>\<open>call->arg(0)->type().is_set()\<close> and otherwise the array it
  evaluates to, for two arguments their two values.
\<close>

datatype 'a Call =
    Call_set
  | Call_array "'a list"
  | Call_pair 'a 'a
  | Call_other

text \<open>\<^verbatim>\<open>for (i=1; i<al->size(); i++) m = std::min(m, eval_int(env,(*al)[i]));\<close>\<close>

fun min_loop :: "'a::linorder \<Rightarrow> 'a list \<Rightarrow> 'a" where
  "min_loop m [] = m"
| "min_loop m (x # xs) = min_loop (std_min m x) xs"

fun max_loop :: "'a::linorder \<Rightarrow> 'a list \<Rightarrow> 'a" where
  "max_loop m [] = m"
| "max_loop m (x # xs) = max_loop (std_max m x) xs"

fun b_int_min :: "int Call \<Rightarrow> error + int" where
  "b_int_min Call_set = Inl (EvalError ''sets not supported'')"
| "b_int_min (Call_array []) =
     Inl (ResultUndefinedError ''minimum of empty array is undefined'')"
| "b_int_min (Call_array (x # xs)) = Inr (min_loop x xs)"
| "b_int_min (Call_pair x y) = Inr (std_min x y)"
| "b_int_min Call_other = Inl (EvalError ''dynamic type error'')"

fun b_int_max :: "int Call \<Rightarrow> error + int" where
  "b_int_max Call_set = Inl (EvalError ''sets not supported'')"
| "b_int_max (Call_array []) =
     Inl (ResultUndefinedError ''maximum of empty array is undefined'')"
| "b_int_max (Call_array (x # xs)) = Inr (max_loop x xs)"
| "b_int_max (Call_pair x y) = Inr (std_max x y)"
| "b_int_max Call_other = Inl (EvalError ''dynamic type error'')"

fun b_float_min :: "('f::linorder) Call \<Rightarrow> error + 'f" where
  "b_float_min Call_set = Inl (EvalError ''sets not supported'')"
| "b_float_min (Call_array []) = Inl (EvalError ''min on empty array undefined'')"
| "b_float_min (Call_array (x # xs)) = Inr (min_loop x xs)"
| "b_float_min (Call_pair x y) = Inr (std_min x y)"
| "b_float_min Call_other = Inl (EvalError ''dynamic type error'')"

fun b_float_max :: "('f::linorder) Call \<Rightarrow> error + 'f" where
  "b_float_max Call_set = Inl (EvalError ''sets not supported'')"
| "b_float_max (Call_array []) = Inl (EvalError ''max on empty array undefined'')"
| "b_float_max (Call_array (x # xs)) = Inr (max_loop x xs)"
| "b_float_max (Call_pair x y) = Inr (std_max x y)"
| "b_float_max Call_other = Inl (EvalError ''dynamic type error'')"

subsection \<open>\<^verbatim>\<open>arg_min\<close> and \<^verbatim>\<open>arg_max\<close>\<close>

text \<open>
  The scan keeps the best value \<open>m\<close> and its 0-based position \<open>m_idx\<close>; \<open>i\<close> is the
  position of the next element. The four builtins differ in the element type and the
  comparison only.
\<close>

fun arg_min_loop :: "'a::linorder \<Rightarrow> nat \<Rightarrow> nat \<Rightarrow> 'a list \<Rightarrow> nat" where
  "arg_min_loop m m_idx i [] = m_idx"
| "arg_min_loop m m_idx i (mi # rest) =
     (if mi < m then arg_min_loop mi i (Suc i) rest
      else arg_min_loop m m_idx (Suc i) rest)"

fun arg_max_loop :: "'a::linorder \<Rightarrow> nat \<Rightarrow> nat \<Rightarrow> 'a list \<Rightarrow> nat" where
  "arg_max_loop m m_idx i [] = m_idx"
| "arg_max_loop m m_idx i (mi # rest) =
     (if mi > m then arg_max_loop mi i (Suc i) rest
      else arg_max_loop m m_idx (Suc i) rest)"

definition b_arg_min_int :: "int list \<Rightarrow> error + int" where
  "b_arg_min_int al =
     (case al of
        [] \<Rightarrow> Inl (ResultUndefinedError ''argmin of empty array is undefined'')
      | x # xs \<Rightarrow> Inr (int (arg_min_loop x 0 1 xs) + 1))"

definition b_arg_max_int :: "int list \<Rightarrow> error + int" where
  "b_arg_max_int al =
     (case al of
        [] \<Rightarrow> Inl (ResultUndefinedError ''argmax of empty array is undefined'')
      | x # xs \<Rightarrow> Inr (int (arg_max_loop x 0 1 xs) + 1))"

definition b_arg_min_float :: "('f::linorder) list \<Rightarrow> error + int" where
  "b_arg_min_float al =
     (case al of
        [] \<Rightarrow> Inl (ResultUndefinedError ''argmin of empty array is undefined'')
      | x # xs \<Rightarrow> Inr (int (arg_min_loop x 0 1 xs) + 1))"

definition b_arg_max_float :: "('f::linorder) list \<Rightarrow> error + int" where
  "b_arg_max_float al =
     (case al of
        [] \<Rightarrow> Inl (ResultUndefinedError ''argmax of empty array is undefined'')
      | x # xs \<Rightarrow> Inr (int (arg_max_loop x 0 1 xs) + 1))"

text \<open>The spec's words: \<open>k\<close> is the position of the first occurrence of \<open>v\<close> in \<open>A\<close>.\<close>

definition first_occurrence :: "'a list \<Rightarrow> 'a \<Rightarrow> nat \<Rightarrow> bool" where
  "first_occurrence A v k = (k < length A \<and> A ! k = v \<and> (\<forall>j<k. A ! j \<noteq> v))"

subsection \<open>\<^verbatim>\<open>sum\<close> and \<^verbatim>\<open>product\<close>\<close>

text \<open>\<^verbatim>\<open>for (i=0; i<al->size(); i++) m += eval_int(env,(*al)[i]);\<close>\<close>

fun sum_loop :: "int \<Rightarrow> int list \<Rightarrow> int" where
  "sum_loop m [] = m"
| "sum_loop m (x # xs) = sum_loop (m + x) xs"

fun product_loop :: "int \<Rightarrow> int list \<Rightarrow> int" where
  "product_loop m [] = m"
| "product_loop m (x # xs) = product_loop (m * x) xs"

definition b_sum_int :: "int list \<Rightarrow> int" where
  "b_sum_int al = (if length al = 0 then 0 else sum_loop 0 al)"

definition b_product_int :: "int list \<Rightarrow> int" where
  "b_product_int al = (if length al = 0 then 1 else product_loop 1 al)"

subsection \<open>\<^verbatim>\<open>compute_div_bounds\<close>\<close>

text \<open>
  Modelled from the spec: \<^verbatim>\<open>IntVal\<close>, \<^verbatim>\<open>IntBounds\<close> and \<^verbatim>\<open>IntSetVal\<close>
  (\<^verbatim>\<open>values.hh\<close>) are not among the sources. An \<^verbatim>\<open>IntVal\<close> is an integer or
  one of the two infinities; \<^verbatim>\<open>IntBounds\<close> is a pair of them with a validity
  flag; an \<^verbatim>\<open>IntSetVal\<close> is a list of ranges, \<^verbatim>\<open>IntSetVal::a(m,n)\<close> the single
  range \<open>m..n\<close>, empty when \<open>n < m\<close>.
\<close>

datatype IntVal = Finite int | PlusInfinity | MinusInfinity

fun isFinite :: "IntVal \<Rightarrow> bool" where
  "isFinite (Finite _) = True"
| "isFinite _ = False"

fun toInt :: "IntVal \<Rightarrow> int" where
  "toInt (Finite v) = v"
| "toInt PlusInfinity = 1"
| "toInt MinusInfinity = - 1"

text \<open>\<^verbatim>\<open>IntVal\<close>'s \<open>/\<close> on finite values: the C++ quotient, truncated towards zero.\<close>

definition IntVal_div :: "int \<Rightarrow> int \<Rightarrow> int" where
  "IntVal_div a b = sgn a * sgn b * (\<bar>a\<bar> div \<bar>b\<bar>)"

definition maxint :: int where "maxint = 2 ^ 63 - 1"

definition minint :: int where "minint = - (2 ^ 63)"

record IntBounds =
  ib_l :: IntVal
  ib_u :: IntVal
  ib_valid :: bool

type_synonym Range = "int \<times> int"

type_synonym IntSetVal = "(IntVal \<times> IntVal) list"

definition IntSetVal_a :: "int \<Rightarrow> int \<Rightarrow> IntSetVal" where
  "IntSetVal_a m n = (if n < m then [] else [(Finite m, Finite n)])"

definition infinity_isv :: IntSetVal where
  "infinity_isv = [(MinusInfinity, PlusInfinity)]"

text \<open>
  Modelled from the spec: the range iterators \<^verbatim>\<open>Ranges::Const\<close> and
  \<^verbatim>\<open>Ranges::Diff\<close> (\<^verbatim>\<open>iter.hh\<close>) are not among the sources. An iterator is
  the list of ranges it still has to yield, in ascending order: \<^verbatim>\<open>it()\<close> holds when
  the list is not empty, \<^verbatim>\<open>it.min()\<close> and \<^verbatim>\<open>it.max()\<close> read its first range
  and \<^verbatim>\<open>++it\<close> drops it. \<^verbatim>\<open>Const(mn,mx)\<close> yields the one range \<open>mn..mx\<close>
  (none when \<open>mx < mn\<close>); \<^verbatim>\<open>Diff\<close> yields what is left of the ranges of its first
  argument once the ranges of the second are removed, so the divisor interval is split
  at zero into at most two sub-intervals.
\<close>

definition Ranges_Const :: "int \<Rightarrow> int \<Rightarrow> Range list" where
  "Ranges_Const mn mx = (if mn \<le> mx then [(mn, mx)] else [])"

definition range_minus :: "Range \<Rightarrow> Range \<Rightarrow> Range list" where
  "range_minus r s =
     (if snd s < fst r \<or> snd r < fst s then [r]
      else (if fst r < fst s then [(fst r, fst s - 1)] else []) @
           (if snd s < snd r then [(snd s + 1, snd r)] else []))"

definition Ranges_Diff :: "Range list \<Rightarrow> Range list \<Rightarrow> Range list" where
  "Ranges_Diff xs ys = foldl (\<lambda>acc s. concat (map (\<lambda>r. range_minus r s) acc)) xs ys"

text \<open>The eight updates of \<open>min\<close> and \<open>max\<close> for the current range \<open>r\<close> of
  \<^verbatim>\<open>byr0\<close>; \<open>mm\<close> is the pair \<open>(min, max)\<close>.\<close>

definition div_corners :: "int \<times> int \<Rightarrow> int \<Rightarrow> int \<Rightarrow> Range \<Rightarrow> int \<times> int" where
  "div_corners mm lx ux r =
     (std_min (std_min (std_min (std_min (fst mm)
          (IntVal_div lx (fst r))) (IntVal_div lx (snd r)))
          (IntVal_div ux (fst r))) (IntVal_div ux (snd r)),
      std_max (std_max (std_max (std_max (snd mm)
          (IntVal_div lx (fst r))) (IntVal_div lx (snd r)))
          (IntVal_div ux (fst r))) (IntVal_div ux (snd r)))"

definition div_min_max :: "int \<Rightarrow> int \<Rightarrow> Range list \<Rightarrow> int \<times> int" where
  "div_min_max lx ux byr0 =
     (case byr0 of
        [] \<Rightarrow> (maxint, minint)
      | r1 # rest \<Rightarrow>
          (case rest of
             [] \<Rightarrow> div_corners (maxint, minint) lx ux r1
           | r2 # _ \<Rightarrow> div_corners (div_corners (maxint, minint) lx ux r1) lx ux r2))"

definition b_compute_div_bounds :: "IntBounds \<Rightarrow> IntBounds \<Rightarrow> error + IntSetVal" where
  "b_compute_div_bounds b_x b_y =
     (if \<not> ib_valid b_x then Inl (EvalError ''cannot determine bounds'')
      else if \<not> isFinite (ib_l b_x) \<or> \<not> isFinite (ib_u b_x) then Inr infinity_isv
      else if \<not> ib_valid b_y then Inl (EvalError ''cannot determine bounds'')
      else if \<not> isFinite (ib_l b_y) \<or> \<not> isFinite (ib_u b_y) then Inr infinity_isv
      else
        (let byr0 = Ranges_Diff (Ranges_Const (toInt (ib_l b_y)) (toInt (ib_u b_y)))
                                (Ranges_Const 0 0);
             mm = div_min_max (toInt (ib_l b_x)) (toInt (ib_u b_x)) byr0
         in Inr (IntSetVal_a (fst mm) (snd mm))))"

subsection \<open>\<^verbatim>\<open>sort_by\<close>\<close>

text \<open>
  \<^verbatim>\<open>std::stable_sort\<close> belongs to the C++ library: it sorts by the comparator and
  keeps the order of elements the comparator does not separate. For a comparator that
  is a strict weak order that result is unique, and the insertion sort below computes
  it.
\<close>

fun ord_insert :: "('a \<Rightarrow> 'a \<Rightarrow> bool) \<Rightarrow> 'a \<Rightarrow> 'a list \<Rightarrow> 'a list" where
  "ord_insert lt x [] = [x]"
| "ord_insert lt x (y # ys) = (if lt y x then y # ord_insert lt x ys else x # y # ys)"

fun stable_sort :: "('a \<Rightarrow> 'a \<Rightarrow> bool) \<Rightarrow> 'a list \<Rightarrow> 'a list" where
  "stable_sort lt [] = []"
| "stable_sort lt (x # xs) = ord_insert lt x (stable_sort lt xs)"

text \<open>
  \<^verbatim>\<open>sorted[i] = (*al)[a[i]]\<close>. Reading \<open>al\<close> past its end is not defined in C++
  (an assertion in a debug build); the result is \<open>None\<close> then.
\<close>

fun gather :: "'e list \<Rightarrow> nat list \<Rightarrow> 'e list option" where
  "gather al [] = Some []"
| "gather al (i # is) =
     (if i < length al then map_option ((#) (al ! i)) (gather al is) else None)"

definition sort_by :: "'e list \<Rightarrow> ('k::linorder) list \<Rightarrow> 'e list option" where
  "sort_by al order =
     gather al (stable_sort (\<lambda>i j. order ! i < order ! j) [0..<length order])"

definition b_sort_by_int :: "'e list \<Rightarrow> int list \<Rightarrow> 'e list option" where
  "b_sort_by_int al order_e = sort_by al order_e"

definition b_sort_by_float :: "'e list \<Rightarrow> ('f::linorder) list \<Rightarrow> 'e list option" where
  "b_sort_by_float al order_e = sort_by al order_e"

text \<open>Position \<open>a\<close> precedes position \<open>b\<close> in the stable order of the keys \<open>K\<close>.\<close>

definition key_idx_less :: "('k::linorder) list \<Rightarrow> nat \<Rightarrow> nat \<Rightarrow> bool" where
  "key_idx_less K a b = (K ! a < K ! b \<or> (K ! a = K ! b \<and> a < b))"

subsection \<open>\<^verbatim>\<open>is_fixed\<close> and \<^verbatim>\<open>fix\<close>\<close>

text \<open>
  Expressions form a graph: identifiers point to declarations, declarations to their
  domain and initialiser. A node is an address in a store \<open>h\<close>; a pointer is an
  \<open>addr option\<close>, \<open>None\<close> for \<^verbatim>\<open>NULL\<close>. A node records what
  \<^verbatim>\<open>exp_is_fixed\<close> reads: \<^verbatim>\<open>eid()\<close>, \<^verbatim>\<open>type().ispar()\<close>,
  \<^verbatim>\<open>type().st() == Type::ST_SET\<close>, \<^verbatim>\<open>Id::decl()\<close>,
  \<^verbatim>\<open>VarDecl::ti()->domain()\<close> and \<^verbatim>\<open>VarDecl::e()\<close>.
  \<^verbatim>\<open>eval_par\<close> is a parameter: it raises or returns a node of the store.
\<close>

datatype ExpressionId =
    E_INTLIT | E_FLOATLIT | E_SETLIT | E_BOOLLIT | E_STRINGLIT | E_ID | E_ANON
  | E_ARRAYLIT | E_ARRAYACCESS | E_COMP | E_ITE | E_BINOP | E_UNOP | E_CALL
  | E_VARDECL | E_LET | E_TI | E_TIID

type_synonym addr = nat

record Expression =
  eid :: ExpressionId
  type_ispar :: bool
  type_st_set :: bool
  id_decl :: "addr option"
  vd_domain :: "addr option"
  vd_e :: "addr option"

type_synonym heap = "addr \<Rightarrow> Expression"

text \<open>\<^verbatim>\<open>dom->isa<IntLit>() || dom->isa<BoolLit>() || dom->isa<FloatLit>()\<close>\<close>

definition is_lit :: "heap \<Rightarrow> addr \<Rightarrow> bool" where
  "is_lit h d = (eid (h d) = E_INTLIT \<or> eid (h d) = E_BOOLLIT \<or> eid (h d) = E_FLOATLIT)"

text \<open>The \<^verbatim>\<open>for (;;)\<close> loop. It has no visited set, so it may run forever on a
  cyclic chain: the result is \<open>None\<close> then.\<close>

partial_function (option) exp_is_fixed_loop :: "heap \<Rightarrow> addr option \<Rightarrow> addr option option" where
  "exp_is_fixed_loop h cur =
     (case cur of
        None \<Rightarrow> Some None
      | Some a \<Rightarrow>
          if type_ispar (h a) then Some (Some a)
          else if eid (h a) = E_ID then exp_is_fixed_loop h (id_decl (h a))
          else if eid (h a) = E_VARDECL then
            (if \<not> type_st_set (h a) \<and>
                (case vd_domain (h a) of None \<Rightarrow> False | Some d \<Rightarrow> is_lit h d)
             then Some (vd_domain (h a))
             else exp_is_fixed_loop h (vd_e (h a)))
          else Some None)"

definition exp_is_fixed ::
  "(addr \<Rightarrow> error + addr) \<Rightarrow> heap \<Rightarrow> addr \<Rightarrow> (error + addr option) option" where
  "exp_is_fixed eval_par h e =
     (case eval_par e of
        Inl err \<Rightarrow> Some (Inl err)
      | Inr cur \<Rightarrow> map_option Inr (exp_is_fixed_loop h (Some cur)))"

definition b_is_fixed ::
  "(addr \<Rightarrow> error + addr) \<Rightarrow> heap \<Rightarrow> addr \<Rightarrow> (error + bool) option" where
  "b_is_fixed eval_par h arg0 =
     (case exp_is_fixed eval_par h arg0 of
        None \<Rightarrow> None
      | Some (Inl err) \<Rightarrow> Some (Inl err)
      | Some (Inr r) \<Rightarrow> Some (Inr (r \<noteq> None)))"

definition b_fix ::
  "(addr \<Rightarrow> error + addr) \<Rightarrow> heap \<Rightarrow> addr \<Rightarrow> (error + addr) option" where
  "b_fix eval_par h arg0 =
     (case exp_is_fixed eval_par h arg0 of
        None \<Rightarrow> None
      | Some (Inl err) \<Rightarrow> Some (Inl err)
      | Some (Inr None) \<Rightarrow> Some (Inl (EvalError ''expression is not fixed''))
      | Some (Inr (Some ret)) \<Rightarrow> Some (Inr ret))"

datatype TypeInst = TI_PAR | TI_VAR

text \<open>
  An array literal: its elements in row-major order, \<^verbatim>\<open>(min(i), max(i))\<close> of each
  axis, and the instantiation of its type. \<^verbatim>\<open>new ArrayLit(loc, v)\<close> builds a
  one-dimensional array indexed from 1.
\<close>

record 'a ArrayLit =
  al_v :: "'a list"
  al_dims :: "(int \<times> int) list"
  al_ti :: TypeInst

fun is_fixed_elems ::
  "(addr \<Rightarrow> error + addr) \<Rightarrow> heap \<Rightarrow> addr list \<Rightarrow> (error + bool) option" where
  "is_fixed_elems eval_par h [] = Some (Inr True)"
| "is_fixed_elems eval_par h (x # xs) =
     (case exp_is_fixed eval_par h x of
        None \<Rightarrow> None
      | Some (Inl err) \<Rightarrow> Some (Inl err)
      | Some (Inr None) \<Rightarrow> Some (Inr False)
      | Some (Inr (Some _)) \<Rightarrow> is_fixed_elems eval_par h xs)"

definition b_is_fixed_array ::
  "(addr \<Rightarrow> error + addr) \<Rightarrow> heap \<Rightarrow> addr ArrayLit \<Rightarrow> (error + bool) option" where
  "b_is_fixed_array eval_par h al =
     (if length (al_v al) = 0 then Some (Inr True)
      else is_fixed_elems eval_par h (al_v al))"

fun fix_elems ::
  "(addr \<Rightarrow> error + addr) \<Rightarrow> heap \<Rightarrow> addr list \<Rightarrow> (error + addr list) option" where
  "fix_elems eval_par h [] = Some (Inr [])"
| "fix_elems eval_par h (x # xs) =
     (case exp_is_fixed eval_par h x of
        None \<Rightarrow> None
      | Some (Inl err) \<Rightarrow> Some (Inl err)
      | Some (Inr None) \<Rightarrow> Some (Inl (EvalError ''expression is not fixed''))
      | Some (Inr (Some c)) \<Rightarrow>
          (case fix_elems eval_par h xs of
             None \<Rightarrow> None
           | Some (Inl err) \<Rightarrow> Some (Inl err)
           | Some (Inr cs) \<Rightarrow> Some (Inr (c # cs))))"

definition b_fix_array ::
  "(addr \<Rightarrow> error + addr) \<Rightarrow> heap \<Rightarrow> addr ArrayLit \<Rightarrow> (error + addr ArrayLit) option" where
  "b_fix_array eval_par h al =
     (case fix_elems eval_par h (al_v al) of
        None \<Rightarrow> None
      | Some (Inl err) \<Rightarrow> Some (Inl err)
      | Some (Inr fixed) \<Rightarrow>
          Some (Inr \<lparr>al_v = fixed, al_dims = [(1, int (length fixed))], al_ti = TI_PAR\<rparr>))"

text \<open>A small store: \<open>0\<close> is an identifier of the declaration \<open>1\<close>, whose domain is the
  integer literal \<open>2\<close>; \<open>3\<close> is an identifier of the declaration \<open>4\<close>, which has
  neither domain nor initialiser.\<close>

definition node :: "ExpressionId \<Rightarrow> bool \<Rightarrow> addr option \<Rightarrow> addr option \<Rightarrow> addr option \<Rightarrow> Expression" where
  "node k p d dm e = \<lparr>eid = k, type_ispar = p, type_st_set = False, id_decl = d, vd_domain = dm, vd_e = e\<rparr>"

definition example_heap :: heap where
  "example_heap a =
     (if a = 0 then node E_ID False (Some 1) None None
      else if a = 1 then node E_VARDECL False None (Some 2) None
      else if a = 2 then node E_INTLIT True None None None
      else if a = 3 then node E_ID False (Some 4) None None
      else if a = 4 then node E_VARDECL False None None None
      else node E_ID False (Some a) None None)"

subsection \<open>\<^verbatim>\<open>showJSON\<close>\<close>

text \<open>Decimal numerals, as \<^verbatim>\<open>operator<<\<close> writes a \<^verbatim>\<open>long long\<close>.\<close>

definition digit_char :: "nat \<Rightarrow> char" where
  "digit_char d = ''0123456789'' ! d"

fun show_nat :: "nat \<Rightarrow> string" where
  "show_nat n = (if n < 10 then [digit_char n] else show_nat (n div 10) @ [digit_char (n mod 10)])"

declare show_nat.simps [simp del]

definition show_int :: "int \<Rightarrow> string" where
  "show_int i = (if i < 0 then CHR ''-'' # show_nat (nat (- i)) else show_nat (nat i))"

text \<open>
  What \<^verbatim>\<open>eval_par\<close> hands to \<^verbatim>\<open>b_show_json\<close>: an expression of variable
  type, an array literal of evaluated elements, or one evaluated element. A set literal
  holds an integer range list (\<^verbatim>\<open>isv()\<close>), a float range list (\<^verbatim>\<open>fsv()\<close>) or
  its element expressions (\<^verbatim>\<open>v()\<close>). The pretty printer
  (\<^verbatim>\<open>prettyprinter.cpp\<close>, not among the sources) and \<^verbatim>\<open>ppFloatVal\<close> are
  parameters.
\<close>

datatype 'f basic_expr =
    IntLit int
  | FloatLit 'f
  | BoolLit bool
  | StringLit string
  | SetLit_isv "(int \<times> int) list"
  | SetLit_fsv "('f \<times> 'f) list"
  | SetLit_v "'f basic_expr list"
  | Absent

datatype ('x, 'f) evaluated =
    Var 'x
  | ParArray "'f basic_expr ArrayLit"
  | ParBasic "'f basic_expr"

fun join_with :: "string \<Rightarrow> string list \<Rightarrow> string" where
  "join_with sep [] = []"
| "join_with sep [s] = s"
| "join_with sep (s # t # ss) = s @ sep @ join_with sep (t # ss)"

definition int_range_json :: "int \<times> int \<Rightarrow> string" where
  "int_range_json r =
     (if fst r = snd r then show_int (fst r)
      else ''['' @ show_int (fst r) @ '','' @ show_int (snd r) @ '']'')"

definition float_range_json :: "('f \<Rightarrow> string) \<Rightarrow> 'f \<times> 'f \<Rightarrow> string" where
  "float_range_json ppFloatVal r =
     (if fst r = snd r then ppFloatVal (fst r)
      else ''['' @ ppFloatVal (fst r) @ '','' @ ppFloatVal (snd r) @ '']'')"

definition set_open :: string where
  "set_open = ''{ '' @ [CHR 0x22] @ ''set'' @ [CHR 0x22] @ '' : [''"

fun b_show_json_basic ::
  "('f basic_expr \<Rightarrow> string) \<Rightarrow> ('f \<Rightarrow> string) \<Rightarrow> 'f basic_expr \<Rightarrow> string" where
  "b_show_json_basic p ppFloatVal (SetLit_isv isv) =
     set_open @ join_with '','' (map int_range_json isv) @ '']}''"
| "b_show_json_basic p ppFloatVal (SetLit_fsv fsv) =
     set_open @ join_with '','' (map (float_range_json ppFloatVal) fsv) @ '']}''"
| "b_show_json_basic p ppFloatVal (SetLit_v v) =
     set_open @ join_with '','' (map p v) @ '']}''"
| "b_show_json_basic p ppFloatVal Absent = ''null''"
| "b_show_json_basic p ppFloatVal e = p e"

text \<open>
  The stride table \<^verbatim>\<open>dims\<close>, of size \<^verbatim>\<open>al->dims()-1\<close>: the extent of the last
  axis, then the running products with the extents of the axes before it, the first axis
  left out. The entries are \<^verbatim>\<open>unsigned int\<close>. An array literal with no axis has no
  table (\<open>None\<close>).
\<close>

definition extent :: "int \<times> int \<Rightarrow> nat" where
  "extent d = nat ((snd d - fst d + 1) mod 2 ^ 32)"

fun stride_table :: "nat \<Rightarrow> nat list \<Rightarrow> nat list" where
  "stride_table prev [] = []"
| "stride_table prev (n # ns) = (prev * n) mod 2 ^ 32 # stride_table ((prev * n) mod 2 ^ 32) ns"

definition json_dims :: "(int \<times> int) list \<Rightarrow> nat list option" where
  "json_dims ds =
     (case rev ds of
        [] \<Rightarrow> None
      | d # outer \<Rightarrow>
          if outer = [] then Some []
          else Some (extent d # stride_table (extent d) (map extent (butlast outer))))"

text \<open>The loop over the elements: \<open>i\<close> is the position of \<open>x\<close>, \<open>sz\<close> is
  \<^verbatim>\<open>al->size()\<close>.\<close>

fun json_elems :: "('e \<Rightarrow> string) \<Rightarrow> nat list \<Rightarrow> nat \<Rightarrow> nat \<Rightarrow> 'e list \<Rightarrow> string" where
  "json_elems sh dims sz i [] = []"
| "json_elems sh dims sz i (x # xs) =
     concat (map (\<lambda>d. if i mod d = 0 then ''['' else []) dims) @
     sh x @
     concat (map (\<lambda>d. if i mod d = d - 1 then '']'' else []) dims) @
     (if i < sz - 1 then '', '' else []) @
     json_elems sh dims sz (Suc i) xs"

text \<open>\<^verbatim>\<open>i % dims[j]\<close> with a zero stride is a division by zero: the result is
  \<open>None\<close> then.\<close>

definition b_show_json ::
  "('x \<Rightarrow> string) \<Rightarrow> ('f basic_expr \<Rightarrow> string) \<Rightarrow> ('f \<Rightarrow> string) \<Rightarrow>
   ('x, 'f) evaluated \<Rightarrow> string option" where
  "b_show_json p_var p ppFloatVal e =
     (case e of
        Var x \<Rightarrow> Some (p_var x)
      | ParArray al \<Rightarrow>
          (case json_dims (al_dims al) of
             None \<Rightarrow> None
           | Some dims \<Rightarrow>
               if al_v al \<noteq> [] \<and> 0 \<in> set dims then None
               else Some (''['' @
                      json_elems (b_show_json_basic p ppFloatVal) dims (length (al_v al)) 0 (al_v al)
                      @ '']''))
      | ParBasic b \<Rightarrow> Some (b_show_json_basic p ppFloatVal b))"

text \<open>
  Modelled from the spec: the pretty printer is not among the sources. It prints an
  integer literal as its decimal numeral; this instance is used on integer literals only
  and prints nothing for other expressions.
\<close>

definition print_IntLit :: "'f basic_expr \<Rightarrow> string" where
  "print_IntLit e = (case e of IntLit i \<Rightarrow> show_int i | _ \<Rightarrow> [])"

definition array_1234 :: "'f basic_expr ArrayLit" where
  "array_1234 = \<lparr>al_v = [IntLit 1, IntLit 2, IntLit 3, IntLit 4],
                  al_dims = [(1, 2), (1, 2)], al_ti = TI_PAR\<rparr>"

subsection \<open>Random sampling\<close>

text \<open>
  The process-wide engine of \<^verbatim>\<open>rnd_generator()\<close> is a state \<open>g\<close> that every
  builtin takes and returns. The distributions belong to the C++ library and are
  parameters: \<open>sample\<close> draws from the distribution built from the given arguments and
  returns the value with the new engine state.
\<close>

definition uniform_msg :: "string \<Rightarrow> string \<Rightarrow> string" where
  "uniform_msg lb ub =
     ''lowerbound of uniform distribution '' @ [CHR 0x22] @ lb @ [CHR 0x22] @
     '' is higher than its upperbound: '' @ ub"

definition b_uniform_float ::
  "('d \<Rightarrow> string) \<Rightarrow> ('d \<Rightarrow> 'd \<Rightarrow> 'g \<Rightarrow> 'd \<times> 'g) \<Rightarrow> ('d::linorder) \<Rightarrow> 'd \<Rightarrow> 'g
   \<Rightarrow> (error + 'd) \<times> 'g" where
  "b_uniform_float show_double sample lb ub g =
     (if lb > ub then (Inl (EvalError (uniform_msg (show_double lb) (show_double ub))), g)
      else (Inr (fst (sample lb ub g)), snd (sample lb ub g)))"

definition b_uniform_int ::
  "(int \<Rightarrow> int \<Rightarrow> 'g \<Rightarrow> int \<times> 'g) \<Rightarrow> int \<Rightarrow> int \<Rightarrow> 'g \<Rightarrow> (error + int) \<times> 'g" where
  "b_uniform_int sample lb ub g =
     (if lb > ub then (Inl (EvalError (uniform_msg (show_int lb) (show_int ub))), g)
      else (Inr (fst (sample lb ub g)), snd (sample lb ub g)))"

definition b_discrete_distribution ::
  "(int ArrayLit \<Rightarrow> string) \<Rightarrow> (int list \<Rightarrow> 'g \<Rightarrow> int \<times> 'g) \<Rightarrow> int ArrayLit \<Rightarrow> 'g
   \<Rightarrow> (error + int) \<times> 'g" where
  "b_discrete_distribution print_al sample al g =
     (if length (al_dims al) \<noteq> 1 then
        (Inl (EvalError
          (''expecting 1-dimensional array of weights for discrete distribution instead of: ''
           @ print_al al @ [CHR 0x0A])), g)
      else (Inr (fst (sample (al_v al) g)), snd (sample (al_v al) g)))"

text \<open>
  A concrete engine and concrete distributions, for evaluating the builtins: the
  engine is the linear congruential generator \<^verbatim>\<open>minstd_rand0\<close>;
  \<open>discrete_sample\<close> picks the index whose cumulative weight first exceeds the draw,
  index 0 when there is no weight, as \<^verbatim>\<open>std::discrete_distribution\<close> specifies;
  \<open>uniform_int_sample\<close> and \<open>uniform_real_sample\<close> map the draw into the bounds.
\<close>

definition minstd_rand0 :: "nat \<Rightarrow> nat" where
  "minstd_rand0 g = (16807 * g) mod 2147483647"

fun pick_index :: "int list \<Rightarrow> int \<Rightarrow> nat" where
  "pick_index [] r = 0"
| "pick_index (w # ws) r = (if r < w \<or> ws = [] then 0 else Suc (pick_index ws (r - w)))"

definition discrete_sample :: "int list \<Rightarrow> nat \<Rightarrow> int \<times> nat" where
  "discrete_sample ws g =
     (int (pick_index ws (if 0 < sum_list ws then int (minstd_rand0 g) mod sum_list ws else 0)),
      minstd_rand0 g)"

definition uniform_int_sample :: "int \<Rightarrow> int \<Rightarrow> nat \<Rightarrow> int \<times> nat" where
  "uniform_int_sample lb ub g = (lb + int (minstd_rand0 g) mod (ub - lb + 1), minstd_rand0 g)"

definition uniform_real_sample :: "real \<Rightarrow> real \<Rightarrow> nat \<Rightarrow> real \<times> nat" where
  "uniform_real_sample lb ub g =
     (lb + (ub - lb) * real (minstd_rand0 g) / 2147483647, minstd_rand0 g)"

definition print_weights :: "int ArrayLit \<Rightarrow> string" where
  "print_weights al = ''['' @ join_with '', '' (map show_int (al_v al)) @ '']''"


section \<open>Theorems\<close>

subsection \<open>Reductions\<close>

lemma sum_loop_foldl: "sum_loop m xs = foldl (+) m xs"
  by (induction xs arbitrary: m) simp_all

lemma product_loop_foldl: "product_loop m xs = foldl (*) m xs"
  by (induction xs arbitrary: m) simp_all

text \<open>
  C5. For every integer array \<open>A\<close>, the empty one included, \<open>sum(A)\<close> is the left fold
  of \<open>+\<close> over \<open>A\<close> from 0 and \<open>product(A)\<close> is the left fold of \<open>*\<close> over \<open>A\<close>
  from 1.
\<close>

theorem b_sum_product_int_fold:
  "b_sum_int A = foldl (+) 0 A \<and> b_product_int A = foldl (*) 1 A"
  by (simp add: b_sum_int_def b_product_int_def sum_loop_foldl product_loop_foldl)

text \<open>
  C2. One-argument \<open>min\<close> and \<open>max\<close> on an array that evaluates to the empty array:
  the integer builtins raise \<^verbatim>\<open>ResultUndefinedError\<close>, the float builtins raise
  \<^verbatim>\<open>EvalError\<close>.
\<close>

theorem min_max_empty_array:
  "b_int_min (Call_array []) =
     Inl (ResultUndefinedError ''minimum of empty array is undefined'') \<and>
   b_int_max (Call_array []) =
     Inl (ResultUndefinedError ''maximum of empty array is undefined'') \<and>
   b_float_min (Call_array []) = Inl (EvalError ''min on empty array undefined'') \<and>
   b_float_max (Call_array []) = Inl (EvalError ''max on empty array undefined'')"
  by simp

subsection \<open>\<^verbatim>\<open>arg_min\<close> and \<^verbatim>\<open>arg_max\<close>\<close>

text \<open>
  The invariant of the scan: \<open>pre\<close> holds the elements already read, \<open>m\<close> is its
  least (greatest) element and \<open>m_idx\<close> the first position that holds it.
\<close>

lemma arg_min_loop_scan:
  assumes "m_idx < length pre" and "pre ! m_idx = m"
    and "\<forall>x\<in>set pre. m \<le> x" and "\<forall>j<m_idx. m < pre ! j"
  shows "arg_min_loop m m_idx (length pre) rest < length (pre @ rest) \<and>
         (\<forall>x\<in>set (pre @ rest). (pre @ rest) ! arg_min_loop m m_idx (length pre) rest \<le> x) \<and>
         (\<forall>j<arg_min_loop m m_idx (length pre) rest.
             (pre @ rest) ! arg_min_loop m m_idx (length pre) rest < (pre @ rest) ! j)"
  using assms
proof (induction rest arbitrary: pre m m_idx)
  case Nil
  then show ?case by simp
next
  case (Cons mi rest)
  show ?case
  proof (cases "mi < m")
    case True
    have a: "length pre < length (pre @ [mi])" by simp
    have b: "(pre @ [mi]) ! length pre = mi" by simp
    have c: "\<forall>x\<in>set (pre @ [mi]). mi \<le> x" using Cons.prems(3) True by auto
    have d: "\<forall>j<length pre. mi < (pre @ [mi]) ! j"
    proof (intro allI impI)
      fix j assume j: "j < length pre"
      then have "m \<le> pre ! j" using Cons.prems(3) nth_mem by blast
      with True j show "mi < (pre @ [mi]) ! j" by (simp add: nth_append)
    qed
    from Cons.IH[OF a b c d] True show ?thesis by simp
  next
    case False
    have a: "m_idx < length (pre @ [mi])" using Cons.prems(1) by simp
    have b: "(pre @ [mi]) ! m_idx = m" using Cons.prems(1,2) by (simp add: nth_append)
    have c: "\<forall>x\<in>set (pre @ [mi]). m \<le> x" using Cons.prems(3) False by auto
    have d: "\<forall>j<m_idx. m < (pre @ [mi]) ! j"
      using Cons.prems(1,4) by (auto simp: nth_append)
    from Cons.IH[OF a b c d] False show ?thesis by simp
  qed
qed

lemma arg_max_loop_scan:
  assumes "m_idx < length pre" and "pre ! m_idx = m"
    and "\<forall>x\<in>set pre. x \<le> m" and "\<forall>j<m_idx. pre ! j < m"
  shows "arg_max_loop m m_idx (length pre) rest < length (pre @ rest) \<and>
         (\<forall>x\<in>set (pre @ rest). x \<le> (pre @ rest) ! arg_max_loop m m_idx (length pre) rest) \<and>
         (\<forall>j<arg_max_loop m m_idx (length pre) rest.
             (pre @ rest) ! j < (pre @ rest) ! arg_max_loop m m_idx (length pre) rest)"
  using assms
proof (induction rest arbitrary: pre m m_idx)
  case Nil
  then show ?case by simp
next
  case (Cons mi rest)
  show ?case
  proof (cases "m < mi")
    case True
    have a: "length pre < length (pre @ [mi])" by simp
    have b: "(pre @ [mi]) ! length pre = mi" by simp
    have c: "\<forall>x\<in>set (pre @ [mi]). x \<le> mi" using Cons.prems(3) True by auto
    have d: "\<forall>j<length pre. (pre @ [mi]) ! j < mi"
    proof (intro allI impI)
      fix j assume j: "j < length pre"
      then have "pre ! j \<le> m" using Cons.prems(3) nth_mem by blast
      with True j show "(pre @ [mi]) ! j < mi" by (simp add: nth_append)
    qed
    from Cons.IH[OF a b c d] True show ?thesis by simp
  next
    case False
    have a: "m_idx < length (pre @ [mi])" using Cons.prems(1) by simp
    have b: "(pre @ [mi]) ! m_idx = m" using Cons.prems(1,2) by (simp add: nth_append)
    have c: "\<forall>x\<in>set (pre @ [mi]). x \<le> m" using Cons.prems(3) False by auto
    have d: "\<forall>j<m_idx. (pre @ [mi]) ! j < m"
      using Cons.prems(1,4) by (auto simp: nth_append)
    from Cons.IH[OF a b c d] False show ?thesis by simp
  qed
qed

lemma arg_min_loop_first:
  fixes x :: "'a::linorder"
  shows "first_occurrence (x # xs) (Min (set (x # xs))) (arg_min_loop x 0 1 xs)"
proof -
  let ?k = "arg_min_loop x 0 1 xs"
  have s: "?k < length ([x] @ xs) \<and>
         (\<forall>y\<in>set ([x] @ xs). ([x] @ xs) ! ?k \<le> y) \<and>
         (\<forall>j<?k. ([x] @ xs) ! ?k < ([x] @ xs) ! j)"
    using arg_min_loop_scan[of 0 "[x]" x xs] by simp
  then have k: "?k < length (x # xs)" by simp
  have le: "\<forall>y\<in>set (x # xs). (x # xs) ! ?k \<le> y" using s by simp
  have "(x # xs) ! ?k \<in> set (x # xs)" using k by (rule nth_mem)
  then have m: "(x # xs) ! ?k = Min (set (x # xs))"
    using le by (intro Min_eqI[symmetric]) auto
  have "\<forall>j<?k. (x # xs) ! j \<noteq> Min (set (x # xs))"
    using s m by auto
  with k m show ?thesis unfolding first_occurrence_def by blast
qed

lemma arg_max_loop_first:
  fixes x :: "'a::linorder"
  shows "first_occurrence (x # xs) (Max (set (x # xs))) (arg_max_loop x 0 1 xs)"
proof -
  let ?k = "arg_max_loop x 0 1 xs"
  have s: "?k < length ([x] @ xs) \<and>
         (\<forall>y\<in>set ([x] @ xs). y \<le> ([x] @ xs) ! ?k) \<and>
         (\<forall>j<?k. ([x] @ xs) ! j < ([x] @ xs) ! ?k)"
    using arg_max_loop_scan[of 0 "[x]" x xs] by simp
  then have k: "?k < length (x # xs)" by simp
  have le: "\<forall>y\<in>set (x # xs). y \<le> (x # xs) ! ?k" using s by simp
  have "(x # xs) ! ?k \<in> set (x # xs)" using k by (rule nth_mem)
  then have m: "(x # xs) ! ?k = Max (set (x # xs))"
    using le by (intro Max_eqI[symmetric]) auto
  have "\<forall>j<?k. (x # xs) ! j \<noteq> Max (set (x # xs))"
    using s m by auto
  with k m show ?thesis unfolding first_occurrence_def by blast
qed

text \<open>
  C6. On an empty array \<open>arg_min\<close> and \<open>arg_max\<close> fail with
  \<^verbatim>\<open>ResultUndefinedError\<close>. On a non-empty array \<open>A\<close> they return \<open>k + 1\<close>, where
  \<open>k\<close> is the 0-based position of the first occurrence of the minimum (maximum) of \<open>A\<close>:
  the 1-based position of that occurrence. This holds for the integer builtins (\<open>A\<close>)
  and the float builtins (\<open>F\<close>).
\<close>

theorem arg_min_max_first_occurrence:
  fixes A :: "int list" and F :: "('f::linorder) list"
  shows
  "b_arg_min_int [] = Inl (ResultUndefinedError ''argmin of empty array is undefined'') \<and>
   b_arg_max_int [] = Inl (ResultUndefinedError ''argmax of empty array is undefined'') \<and>
   b_arg_min_float ([] :: 'f list) =
     Inl (ResultUndefinedError ''argmin of empty array is undefined'') \<and>
   b_arg_max_float ([] :: 'f list) =
     Inl (ResultUndefinedError ''argmax of empty array is undefined'') \<and>
   (A \<noteq> [] \<longrightarrow>
     (\<exists>k. b_arg_min_int A = Inr (int k + 1) \<and> first_occurrence A (Min (set A)) k) \<and>
     (\<exists>k. b_arg_max_int A = Inr (int k + 1) \<and> first_occurrence A (Max (set A)) k)) \<and>
   (F \<noteq> [] \<longrightarrow>
     (\<exists>k. b_arg_min_float F = Inr (int k + 1) \<and> first_occurrence F (Min (set F)) k) \<and>
     (\<exists>k. b_arg_max_float F = Inr (int k + 1) \<and> first_occurrence F (Max (set F)) k))"
proof -
  have e: "b_arg_min_int [] = Inl (ResultUndefinedError ''argmin of empty array is undefined'')"
    "b_arg_max_int [] = Inl (ResultUndefinedError ''argmax of empty array is undefined'')"
    "b_arg_min_float ([] :: 'f list) =
       Inl (ResultUndefinedError ''argmin of empty array is undefined'')"
    "b_arg_max_float ([] :: 'f list) =
       Inl (ResultUndefinedError ''argmax of empty array is undefined'')"
    by (simp_all add: b_arg_min_int_def b_arg_max_int_def b_arg_min_float_def
        b_arg_max_float_def)
  have a: "A \<noteq> [] \<longrightarrow>
     (\<exists>k. b_arg_min_int A = Inr (int k + 1) \<and> first_occurrence A (Min (set A)) k) \<and>
     (\<exists>k. b_arg_max_int A = Inr (int k + 1) \<and> first_occurrence A (Max (set A)) k)"
  proof (cases A)
    case Nil
    then show ?thesis by simp
  next
    case (Cons x xs)
    then show ?thesis
      using arg_min_loop_first[of x xs] arg_max_loop_first[of x xs]
      by (auto simp: b_arg_min_int_def b_arg_max_int_def)
  qed
  have f: "F \<noteq> [] \<longrightarrow>
     (\<exists>k. b_arg_min_float F = Inr (int k + 1) \<and> first_occurrence F (Min (set F)) k) \<and>
     (\<exists>k. b_arg_max_float F = Inr (int k + 1) \<and> first_occurrence F (Max (set F)) k)"
  proof (cases F)
    case Nil
    then show ?thesis by simp
  next
    case (Cons x xs)
    then show ?thesis
      using arg_min_loop_first[of x xs] arg_max_loop_first[of x xs]
      by (auto simp: b_arg_min_float_def b_arg_max_float_def)
  qed
  from e a f show ?thesis by blast
qed

theorem arg_min_max_first_occurrence_witness:
  "[3, 1, 2, 1, 3] \<noteq> ([] :: int list) \<and> [2, 5, 5, 1] \<noteq> ([] :: real list) \<and>
   b_arg_min_int [3, 1, 2, 1, 3] = Inr 2 \<and> first_occurrence [3, 1, 2, 1, 3 :: int] 1 1 \<and>
   b_arg_max_int [3, 1, 2, 1, 3] = Inr 1 \<and> first_occurrence [3, 1, 2, 1, 3 :: int] 3 0 \<and>
   b_arg_min_float [2, 5, 5, 1 :: real] = Inr 4 \<and> first_occurrence [2, 5, 5, 1 :: real] 1 3 \<and>
   b_arg_max_float [2, 5, 5, 1 :: real] = Inr 2 \<and> first_occurrence [2, 5, 5, 1 :: real] 5 1"
  using arg_min_max_first_occurrence[of "[3, 1, 2, 1, 3]" "[2, 5, 5, 1 :: real]"]
  by (simp add: b_arg_min_int_def b_arg_max_int_def b_arg_min_float_def b_arg_max_float_def
      first_occurrence_def nth_Cons' less_Suc_eq_0_disj)

subsection \<open>\<^verbatim>\<open>sort_by\<close>\<close>

lemma set_ord_insert: "set (ord_insert lt x ys) = insert x (set ys)"
  by (induction ys) auto

lemma mset_ord_insert: "mset (ord_insert lt x ys) = add_mset x (mset ys)"
  by (induction ys) auto

lemma mset_stable_sort: "mset (stable_sort lt xs) = mset xs"
  by (induction xs) (auto simp: mset_ord_insert)

lemma key_idx_less_trans:
  "key_idx_less K a b \<Longrightarrow> key_idx_less K b c \<Longrightarrow> key_idx_less K a c"
  by (auto simp: key_idx_less_def)

lemma sorted_ord_insert:
  assumes "sorted_wrt (key_idx_less K) ys" and "\<forall>y\<in>set ys. x < y"
  shows "sorted_wrt (key_idx_less K) (ord_insert (\<lambda>i j. K ! i < K ! j) x ys)"
  using assms
proof (induction ys)
  case Nil
  then show ?case by simp
next
  case (Cons y ys)
  show ?case
  proof (cases "K ! y < K ! x")
    case True
    have "key_idx_less K y x" using True by (simp add: key_idx_less_def)
    moreover have "\<forall>z\<in>set ys. key_idx_less K y z" using Cons.prems(1) by simp
    moreover have "sorted_wrt (key_idx_less K) (ord_insert (\<lambda>i j. K ! i < K ! j) x ys)"
      using Cons by simp
    ultimately show ?thesis using True by (simp add: set_ord_insert)
  next
    case False
    have xy: "key_idx_less K x y" using False Cons.prems(2) by (auto simp: key_idx_less_def)
    have "\<forall>z\<in>set ys. key_idx_less K x z"
      using xy Cons.prems(1) key_idx_less_trans by fastforce
    with xy Cons.prems(1) False show ?thesis by simp
  qed
qed

lemma sorted_stable_sort_upt:
  "sorted_wrt (key_idx_less K) (stable_sort (\<lambda>i j. K ! i < K ! j) [m..<n])"
proof (induction "n - m" arbitrary: m)
  case 0
  then show ?case by simp
next
  case (Suc d)
  then have mn: "m < n" and d: "d = n - Suc m" by linarith+
  have "\<forall>y\<in>set (stable_sort (\<lambda>i j. K ! i < K ! j) [Suc m..<n]). m < y"
    using mset_stable_sort[of "\<lambda>i j. K ! i < K ! j" "[Suc m..<n]"]
    by (metis Suc_le_lessD atLeastLessThan_iff mset_eq_setD set_upt)
  then show ?case
    using Suc.hyps(1)[OF d] mn by (simp add: upt_conv_Cons sorted_ord_insert)
qed

lemma gather_in_range:
  "\<forall>i\<in>set is. i < length al \<Longrightarrow> gather al is = Some (map ((!) al) is)"
  by (induction "is") auto

lemma sort_by_stable:
  fixes K :: "('k::linorder) list"
  assumes len: "length A = length K"
  shows "\<exists>p. sort_by A K = Some (map ((!) A) p) \<and>
      mset p = mset [0..<length A] \<and>
      mset (map ((!) A) p) = mset A \<and>
      sorted (map ((!) K) p) \<and>
      (\<forall>i j. i < j \<and> j < length p \<and> K ! (p ! i) = K ! (p ! j) \<longrightarrow> p ! i < p ! j)"
proof -
  let ?p = "stable_sort (\<lambda>i j. K ! i < K ! j) [0..<length K]"
  have ms: "mset ?p = mset [0..<length A]" using len by (simp add: mset_stable_sort)
  then have "set ?p = {0..<length A}" by (metis mset_eq_setD set_upt)
  then have "\<forall>i\<in>set ?p. i < length A" by simp
  then have g: "sort_by A K = Some (map ((!) A) ?p)"
    by (simp add: sort_by_def gather_in_range)
  have "mset (map ((!) A) ?p) = image_mset ((!) A) (mset [0..<length A])"
    using ms by (metis mset_map)
  also have "\<dots> = mset (map ((!) A) [0..<length A])" by simp
  also have "\<dots> = mset A" by (simp add: map_nth)
  finally have perm: "mset (map ((!) A) ?p) = mset A" .
  have sw: "sorted_wrt (key_idx_less K) ?p" by (rule sorted_stable_sort_upt)
  have "sorted_wrt (\<lambda>a b. K ! a \<le> K ! b) ?p"
    by (rule sorted_wrt_mono_rel[OF _ sw]) (auto simp: key_idx_less_def)
  then have srt: "sorted (map ((!) K) ?p)" by (simp add: sorted_wrt_map)
  have st: "\<forall>i j. i < j \<and> j < length ?p \<and> K ! (?p ! i) = K ! (?p ! j) \<longrightarrow> ?p ! i < ?p ! j"
  proof (intro allI impI)
    fix i j assume h: "i < j \<and> j < length ?p \<and> K ! (?p ! i) = K ! (?p ! j)"
    then have "key_idx_less K (?p ! i) (?p ! j)"
      using sw by (simp add: sorted_wrt_iff_nth_less)
    with h show "?p ! i < ?p ! j" by (simp add: key_idx_less_def)
  qed
  from g ms perm srt st show ?thesis by blast
qed

text \<open>
  C7. For a value array \<open>A\<close> and a key array \<open>K\<close> of the same length, \<open>sort_by(A, K)\<close>
  returns \<open>A\<close> rearranged by a permutation \<open>p\<close> of its positions: the result is a
  permutation of \<open>A\<close>, the keys are ascending along \<open>p\<close>, and two positions with equal
  keys keep their original order. This holds for integer keys (\<open>K\<close>) and float keys
  (\<open>Kf\<close>).
\<close>

theorem sort_by_stable_permutation:
  fixes K :: "int list" and Kf :: "('f::linorder) list"
  shows
  "(length A = length K \<longrightarrow>
     (\<exists>p. b_sort_by_int A K = Some (map ((!) A) p) \<and>
        mset p = mset [0..<length A] \<and>
        mset (map ((!) A) p) = mset A \<and>
        sorted (map ((!) K) p) \<and>
        (\<forall>i j. i < j \<and> j < length p \<and> K ! (p ! i) = K ! (p ! j) \<longrightarrow> p ! i < p ! j))) \<and>
   (length A = length Kf \<longrightarrow>
     (\<exists>p. b_sort_by_float A Kf = Some (map ((!) A) p) \<and>
        mset p = mset [0..<length A] \<and>
        mset (map ((!) A) p) = mset A \<and>
        sorted (map ((!) Kf) p) \<and>
        (\<forall>i j. i < j \<and> j < length p \<and> Kf ! (p ! i) = Kf ! (p ! j) \<longrightarrow> p ! i < p ! j)))"
  using sort_by_stable[of A K] sort_by_stable[of A Kf]
  unfolding b_sort_by_int_def b_sort_by_float_def by blast

theorem sort_by_stable_permutation_witness:
  "length ''abcd'' = length [2, 1, 2, 1 :: int] \<and>
   length ''abcd'' = length [2, 1, 2, 1 :: real] \<and>
   b_sort_by_int ''abcd'' [2, 1, 2, 1] = Some ''bdac'' \<and>
   b_sort_by_float ''abcd'' [2, 1, 2, 1 :: real] = Some ''bdac''"
  using sort_by_stable_permutation[of "''abcd''" "[2, 1, 2, 1]" "[2, 1, 2, 1 :: real]"]
  by (simp add: b_sort_by_int_def b_sort_by_float_def sort_by_def upt_conv_Cons)

subsection \<open>\<^verbatim>\<open>compute_div_bounds\<close>\<close>

lemma IntVal_div_pos: "0 \<le> a \<Longrightarrow> 0 < b \<Longrightarrow> IntVal_div a b = a div b"
  by (cases "a = 0") (simp_all add: IntVal_div_def)

lemma IntVal_div_neg_num: "a < 0 \<Longrightarrow> 0 < b \<Longrightarrow> IntVal_div a b = - ((- a) div b)"
  by (simp add: IntVal_div_def)

lemma IntVal_div_neg_den: "IntVal_div a (- b) = - IntVal_div a b"
  by (simp add: IntVal_div_def sgn_minus)

lemma IntVal_div_mono_num:
  assumes "0 < b" and "a \<le> a'"
  shows "IntVal_div a b \<le> IntVal_div a' b"
proof -
  consider "0 \<le> a" | "a < 0" "a' < 0" | "a < 0" "0 \<le> a'" by linarith
  then show ?thesis
  proof cases
    case 1
    then show ?thesis using assms by (simp add: IntVal_div_pos zdiv_mono1)
  next
    case 2
    then show ?thesis using assms by (simp add: IntVal_div_neg_num zdiv_mono1)
  next
    case 3
    have "0 \<le> (- a) div b" using 3 assms by (simp add: pos_imp_zdiv_nonneg_iff)
    moreover have "0 \<le> a' div b" using 3 assms by (simp add: pos_imp_zdiv_nonneg_iff)
    ultimately show ?thesis using 3 assms by (simp add: IntVal_div_pos IntVal_div_neg_num)
  qed
qed

lemma IntVal_div_den_nonneg_num:
  assumes "0 \<le> a" and "0 < b" and "b \<le> b'"
  shows "IntVal_div a b' \<le> IntVal_div a b"
  using assms by (simp add: IntVal_div_pos zdiv_mono2)

lemma IntVal_div_den_neg_num:
  assumes "a < 0" and "0 < b" and "b \<le> b'"
  shows "IntVal_div a b \<le> IntVal_div a b'"
  using assms by (simp add: IntVal_div_neg_num zdiv_mono2)

text \<open>Positive divisor range: the quotient lies between two corner quotients.\<close>

lemma corners_pos:
  assumes "0 < a" "a \<le> y" "y \<le> b" "lx \<le> x" "x \<le> ux"
  shows "min (IntVal_div lx a) (IntVal_div lx b) \<le> IntVal_div x y \<and>
         IntVal_div x y \<le> max (IntVal_div ux a) (IntVal_div ux b)"
proof -
  have y: "0 < y" using assms by simp
  have 1: "IntVal_div lx y \<le> IntVal_div x y" using y assms by (simp add: IntVal_div_mono_num)
  have 2: "IntVal_div x y \<le> IntVal_div ux y" using y assms by (simp add: IntVal_div_mono_num)
  have 3: "min (IntVal_div lx a) (IntVal_div lx b) \<le> IntVal_div lx y"
  proof (cases "0 \<le> lx")
    case True
    then have "IntVal_div lx b \<le> IntVal_div lx y"
      using y assms by (simp add: IntVal_div_den_nonneg_num)
    then show ?thesis by simp
  next
    case False
    then have "IntVal_div lx a \<le> IntVal_div lx y"
      using assms by (simp add: IntVal_div_den_neg_num)
    then show ?thesis by simp
  qed
  have 4: "IntVal_div ux y \<le> max (IntVal_div ux a) (IntVal_div ux b)"
  proof (cases "0 \<le> ux")
    case True
    then have "IntVal_div ux y \<le> IntVal_div ux a"
      using assms by (simp add: IntVal_div_den_nonneg_num)
    then show ?thesis by simp
  next
    case False
    then have "IntVal_div ux y \<le> IntVal_div ux b"
      using y assms by (simp add: IntVal_div_den_neg_num)
    then show ?thesis by simp
  qed
  from 1 2 3 4 show ?thesis by linarith
qed

lemma corners_neg:
  assumes "b < 0" "a \<le> y" "y \<le> b" "lx \<le> x" "x \<le> ux"
  shows "min (IntVal_div ux a) (IntVal_div ux b) \<le> IntVal_div x y \<and>
         IntVal_div x y \<le> max (IntVal_div lx a) (IntVal_div lx b)"
proof -
  have "min (IntVal_div lx (- b)) (IntVal_div lx (- a)) \<le> IntVal_div x (- y) \<and>
         IntVal_div x (- y) \<le> max (IntVal_div ux (- b)) (IntVal_div ux (- a))"
    using assms by (intro corners_pos) simp_all
  then show ?thesis by (simp add: IntVal_div_neg_den) linarith
qed

lemma std_min_eq: "std_min a b = min a b"
  by (auto simp: std_min_def min_def)

lemma std_max_eq: "std_max a b = max a b"
  by (auto simp: std_max_def max_def)

lemma div_corners_sound:
  assumes "0 < fst r \<or> snd r < 0" "fst r \<le> y" "y \<le> snd r" "lx \<le> x" "x \<le> ux"
  shows "fst (div_corners mm lx ux r) \<le> IntVal_div x y \<and>
         IntVal_div x y \<le> snd (div_corners mm lx ux r)"
proof (cases "0 < fst r")
  case True
  then show ?thesis
    using corners_pos[of "fst r" y "snd r" lx x ux] assms
    by (simp add: div_corners_def std_min_eq std_max_eq) linarith
next
  case False
  then show ?thesis
    using corners_neg[of "snd r" "fst r" y lx x ux] assms
    by (simp add: div_corners_def std_min_eq std_max_eq) linarith
qed

lemma div_corners_widen:
  "fst (div_corners mm lx ux r) \<le> fst mm \<and> snd mm \<le> snd (div_corners mm lx ux r)"
  by (simp add: div_corners_def std_min_eq std_max_eq) linarith

lemma Ranges_Diff_zero:
  "Ranges_Diff (Ranges_Const ly uy) (Ranges_Const 0 0) =
     (if uy < ly then []
      else if uy < 0 \<or> 0 < ly then [(ly, uy)]
      else (if ly < 0 then [(ly, - 1)] else []) @ (if 0 < uy then [(1, uy)] else []))"
  by (simp add: Ranges_Diff_def Ranges_Const_def range_minus_def)

lemma div_min_max_sound:
  assumes "lx \<le> x" "x \<le> ux" "ly \<le> y" "y \<le> uy" "y \<noteq> 0"
  shows "fst (div_min_max lx ux (Ranges_Diff (Ranges_Const ly uy) (Ranges_Const 0 0)))
           \<le> IntVal_div x y \<and>
         IntVal_div x y
           \<le> snd (div_min_max lx ux (Ranges_Diff (Ranges_Const ly uy) (Ranges_Const 0 0)))"
proof -
  let ?m0 = "(maxint, minint)"
  consider (a) "uy < 0 \<or> 0 < ly" | (b) "ly < 0" "uy = 0" | (c) "ly = 0" "0 < uy"
    | (d) "ly < 0" "0 < uy" "y < 0" | (e) "ly < 0" "0 < uy" "0 < y"
    using assms by linarith
  then show ?thesis
  proof cases
    case a
    then show ?thesis
      using assms div_corners_sound[of "(ly, uy)" y lx x ux ?m0]
      by (auto simp: Ranges_Diff_zero div_min_max_def)
  next
    case b
    then show ?thesis
      using assms div_corners_sound[of "(ly, - 1)" y lx x ux ?m0]
      by (auto simp: Ranges_Diff_zero div_min_max_def)
  next
    case c
    then show ?thesis
      using assms div_corners_sound[of "(1, uy)" y lx x ux ?m0]
      by (auto simp: Ranges_Diff_zero div_min_max_def)
  next
    case d
    then show ?thesis
      using assms div_corners_sound[of "(ly, - 1)" y lx x ux ?m0]
        div_corners_widen[of "div_corners ?m0 lx ux (ly, - 1)" lx ux "(1, uy)"]
      by (auto simp: Ranges_Diff_zero div_min_max_def)
  next
    case e
    then show ?thesis
      using assms
        div_corners_sound[of "(1, uy)" y lx x ux "div_corners ?m0 lx ux (ly, - 1)"]
      by (auto simp: Ranges_Diff_zero div_min_max_def)
  qed
qed

text \<open>
  C1. For finite, valid bounds \<open>lx..ux\<close> of the dividend and \<open>ly..uy\<close> of the divisor,
  \<^verbatim>\<open>b_compute_div_bounds\<close> returns one range \<open>lo..hi\<close>, and every quotient of an
  \<open>x\<close> in \<open>lx..ux\<close> by a \<open>y \<noteq> 0\<close> in \<open>ly..uy\<close> lies in it: \<open>lo \<le> x / y \<le> hi\<close>,
  where \<open>/\<close> is the truncating quotient that \<^verbatim>\<open>div\<close> evaluates to.
\<close>

theorem b_compute_div_bounds_sound:
  assumes "ib_valid b_x" "ib_l b_x = Finite lx" "ib_u b_x = Finite ux"
    and "ib_valid b_y" "ib_l b_y = Finite ly" "ib_u b_y = Finite uy"
    and "lx \<le> x" "x \<le> ux" "ly \<le> y" "y \<le> uy" "y \<noteq> 0"
  shows "\<exists>lo hi. b_compute_div_bounds b_x b_y = Inr [(Finite lo, Finite hi)] \<and>
           lo \<le> IntVal_div x y \<and> IntVal_div x y \<le> hi"
proof -
  let ?mm = "div_min_max lx ux (Ranges_Diff (Ranges_Const ly uy) (Ranges_Const 0 0))"
  have s: "fst ?mm \<le> IntVal_div x y \<and> IntVal_div x y \<le> snd ?mm"
    using assms(7-11) by (rule div_min_max_sound)
  then have "\<not> snd ?mm < fst ?mm" by linarith
  then have "b_compute_div_bounds b_x b_y = Inr [(Finite (fst ?mm), Finite (snd ?mm))]"
    using assms(1-6) by (simp add: b_compute_div_bounds_def IntSetVal_a_def Let_def)
  with s show ?thesis by blast
qed

theorem b_compute_div_bounds_sound_witness:
  "ib_valid \<lparr>ib_l = Finite (- 7), ib_u = Finite 5, ib_valid = True\<rparr> \<and>
   ib_valid \<lparr>ib_l = Finite (- 2), ib_u = Finite 3, ib_valid = True\<rparr> \<and>
   (- 7 :: int) \<le> - 7 \<and> (- 7 :: int) \<le> 5 \<and> (- 2 :: int) \<le> - 2 \<and> (- 2 :: int) \<le> 3 \<and>
   (- 2 :: int) \<noteq> 0 \<and>
   (\<exists>lo hi. b_compute_div_bounds \<lparr>ib_l = Finite (- 7), ib_u = Finite 5, ib_valid = True\<rparr>
               \<lparr>ib_l = Finite (- 2), ib_u = Finite 3, ib_valid = True\<rparr>
             = Inr [(Finite lo, Finite hi)] \<and>
            lo \<le> IntVal_div (- 7) (- 2) \<and> IntVal_div (- 7) (- 2) \<le> hi)"
  using b_compute_div_bounds_sound[of
      "\<lparr>ib_l = Finite (- 7), ib_u = Finite 5, ib_valid = True\<rparr>" "- 7" 5
      "\<lparr>ib_l = Finite (- 2), ib_u = Finite 3, ib_valid = True\<rparr>" "- 2" 3 "- 7" "- 2"]
  by simp

subsection \<open>\<^verbatim>\<open>is_fixed\<close> and \<^verbatim>\<open>fix\<close>\<close>

lemma exp_is_fixed_loop_result_aux:
  assumes "exp_is_fixed_loop h cur = Some r"
  shows "\<forall>c. r = Some c \<longrightarrow> type_ispar (h c) \<or> is_lit h c"
  by (rule exp_is_fixed_loop.raw_induct[OF _ assms])
     (auto split: option.splits if_splits)

lemma exp_is_fixed_loop_result:
  "exp_is_fixed_loop h cur = Some (Some c) \<Longrightarrow> type_ispar (h c) \<or> is_lit h c"
  using exp_is_fixed_loop_result_aux by blast

lemma example_heap_fixed: "exp_is_fixed_loop example_heap (Some 0) = Some (Some 2)"
  by (simp add: exp_is_fixed_loop.simps example_heap_def node_def is_lit_def)

lemma example_heap_not_fixed: "exp_is_fixed_loop example_heap (Some 3) = Some None"
  by (simp add: exp_is_fixed_loop.simps example_heap_def node_def is_lit_def)

text \<open>
  C8. Whenever \<open>is_fixed(e)\<close> returns false, \<open>fix(e)\<close> raises
  \<^verbatim>\<open>EvalError\<close> "expression is not fixed"; whenever \<open>is_fixed(e)\<close> returns true,
  \<open>fix(e)\<close> returns an expression \<open>c\<close> without error, and \<open>c\<close> is the resolved
  constant: an expression of parameter type or a literal domain.
\<close>

theorem fix_agrees_with_is_fixed:
  "(b_is_fixed eval_par h e = Some (Inr False) \<longrightarrow>
      b_fix eval_par h e = Some (Inl (EvalError ''expression is not fixed''))) \<and>
   (b_is_fixed eval_par h e = Some (Inr True) \<longrightarrow>
      (\<exists>c. b_fix eval_par h e = Some (Inr c) \<and> (type_ispar (h c) \<or> is_lit h c)))"
proof (intro conjI impI)
  assume "b_is_fixed eval_par h e = Some (Inr False)"
  then show "b_fix eval_par h e = Some (Inl (EvalError ''expression is not fixed''))"
    by (auto simp: b_is_fixed_def b_fix_def split: option.splits sum.splits)
next
  assume t: "b_is_fixed eval_par h e = Some (Inr True)"
  then obtain c where c: "exp_is_fixed eval_par h e = Some (Inr (Some c))"
    by (auto simp: b_is_fixed_def split: option.splits sum.splits)
  then obtain cur where "exp_is_fixed_loop h (Some cur) = Some (Some c)"
    by (auto simp: exp_is_fixed_def split: sum.splits)
  then have "type_ispar (h c) \<or> is_lit h c" by (rule exp_is_fixed_loop_result)
  with c show "\<exists>c. b_fix eval_par h e = Some (Inr c) \<and> (type_ispar (h c) \<or> is_lit h c)"
    by (simp add: b_fix_def)
qed

theorem fix_agrees_with_is_fixed_witness:
  "b_is_fixed Inr example_heap 3 = Some (Inr False) \<and>
   b_fix Inr example_heap 3 = Some (Inl (EvalError ''expression is not fixed'')) \<and>
   b_is_fixed Inr example_heap 0 = Some (Inr True) \<and>
   b_fix Inr example_heap 0 = Some (Inr 2) \<and>
   (type_ispar (example_heap 2) \<or> is_lit example_heap 2)"
  using fix_agrees_with_is_fixed[of Inr example_heap 3]
    fix_agrees_with_is_fixed[of Inr example_heap 0]
  by (simp add: b_is_fixed_def b_fix_def exp_is_fixed_def example_heap_fixed
      example_heap_not_fixed is_lit_def example_heap_def node_def)

text \<open>
  C10. On an array that evaluates to the empty array, \<open>is_fixed_array\<close> returns true
  and \<open>fix_array\<close> succeeds with an empty array of parameter type, whatever the store
  and the evaluator are: no element is inspected.
\<close>

theorem fixed_array_empty:
  "b_is_fixed_array eval_par h \<lparr>al_v = [], al_dims = ds, al_ti = t\<rparr> = Some (Inr True) \<and>
   b_fix_array eval_par h \<lparr>al_v = [], al_dims = ds, al_ti = t\<rparr> =
     Some (Inr \<lparr>al_v = [], al_dims = [(1, 0)], al_ti = TI_PAR\<rparr>)"
  by (simp add: b_is_fixed_array_def b_fix_array_def)

subsection \<open>\<^verbatim>\<open>showJSON\<close>\<close>

lemma show_int_digits:
  "show_int 1 = ''1''" "show_int 2 = ''2''" "show_int 3 = ''3''" "show_int 4 = ''4''"
  by (simp_all add: show_int_def show_nat.simps digit_char_def)

lemma json_dims_2x2: "json_dims [(1, 2), (1, 2)] = Some [2]"
  by (simp add: json_dims_def extent_def)

text \<open>
  C4 (amended). With a printer that writes integer literals as decimal numerals, \<open>showJSON\<close> of
  the 2\<times>2 array \<open>[1,2;3,4]\<close> is exactly \<open>[[1, 2], [3, 4]]\<close>: the elements are
  separated by a comma and a space, and an inner bracket opens at every position that
  is a multiple of the stride 2 and closes at every position just before one.
\<close>

theorem show_json_2x2:
  assumes "\<forall>k. p (IntLit k) = show_int k"
  shows "b_show_json p_var p ppFloatVal (ParArray array_1234) = Some ''[[1, 2], [3, 4]]''"
  using assms
  by (simp add: b_show_json_def array_1234_def json_dims_2x2 show_int_digits)

theorem show_json_2x2_witness:
  "(\<forall>k. print_IntLit (IntLit k :: real basic_expr) = show_int k) \<and>
   b_show_json (\<lambda>x :: unit. []) print_IntLit (\<lambda>f :: real. []) (ParArray array_1234) =
     Some ''[[1, 2], [3, 4]]''"
  using show_json_2x2[of "print_IntLit :: real basic_expr \<Rightarrow> string"
      "\<lambda>x :: unit. []" "\<lambda>f :: real. []"]
  by (simp add: print_IntLit_def)

text \<open>The compact text \<open>[[1,2],[3,4]]\<close>, without the spaces, is not what is rendered.\<close>

theorem show_json_2x2_no_compact_text:
  "b_show_json (\<lambda>x :: unit. []) print_IntLit (\<lambda>f :: real. []) (ParArray array_1234) \<noteq>
     Some ''[[1,2],[3,4]]''"
  by (simp add: b_show_json_def array_1234_def json_dims_2x2 show_int_digits
      print_IntLit_def)

subsection \<open>Random sampling\<close>

text \<open>
  C9. When the lower bound is greater than the upper bound, \<open>uniform\<close> (integer and
  float) raises \<^verbatim>\<open>EvalError\<close> and hands back the engine state it was given,
  whatever the distribution \<open>sample\<close> would have drawn.
\<close>

theorem uniform_inverted_bounds:
  "(ub < lb \<longrightarrow>
      b_uniform_int sample lb ub g =
        (Inl (EvalError (uniform_msg (show_int lb) (show_int ub))), g)) \<and>
   (ubf < lbf \<longrightarrow>
      b_uniform_float show_double samplef lbf ubf gf =
        (Inl (EvalError (uniform_msg (show_double lbf) (show_double ubf))), gf))"
  by (simp add: b_uniform_int_def b_uniform_float_def)

theorem uniform_inverted_bounds_witness:
  "(1 :: int) < 5 \<and>
   b_uniform_int uniform_int_sample 5 1 (1 :: nat) =
     (Inl (EvalError (uniform_msg ''5'' ''1'')), 1) \<and>
   (1 :: real) < 5 \<and>
   b_uniform_float (\<lambda>d. show_int \<lfloor>d\<rfloor>) uniform_real_sample 5 1 (1 :: nat) =
     (Inl (EvalError (uniform_msg ''5'' ''1'')), 1)"
  using uniform_inverted_bounds[of 1 5 uniform_int_sample "1 :: nat" 1 5
      "\<lambda>d. show_int \<lfloor>d\<rfloor>" uniform_real_sample "1 :: nat"]
  by (simp add: show_int_def show_nat.simps digit_char_def)

lemma pick_index_bound: "pick_index ws r < max 1 (length ws)"
proof (induction ws arbitrary: r)
  case Nil
  then show ?case by simp
next
  case (Cons w ws)
  then show ?case using Cons.IH[of "r - w"] by (cases ws) auto
qed

lemma discrete_sample_contract:
  "0 \<le> fst (discrete_sample ws g) \<and> fst (discrete_sample ws g) < int (max 1 (length ws))"
  using pick_index_bound[of ws] by (simp add: discrete_sample_def)

text \<open>
  C3 (amended). For a one-dimensional weight array and a distribution that keeps the
  contract of \<^verbatim>\<open>std::discrete_distribution\<close> (an index from 0 and below the number
  of weights, index 0 when there is none), the builtin returns the sampled index as it
  is, 0-based, with the engine state the draw leaves: the value lies in \<open>0..n-1\<close> for
  \<open>n \<ge> 1\<close> weights.
\<close>

theorem discrete_distribution_zero_based:
  assumes "length (al_dims al) = 1"
    and "\<forall>ws g. 0 \<le> fst (sample ws g) \<and> fst (sample ws g) < int (max 1 (length ws))"
  shows "\<exists>r g'. b_discrete_distribution print_al sample al g = (Inr r, g') \<and>
           (r, g') = sample (al_v al) g \<and>
           0 \<le> r \<and> r < int (max 1 (length (al_v al)))"
  using assms by (simp add: b_discrete_distribution_def)

theorem discrete_distribution_zero_based_witness:
  "length (al_dims \<lparr>al_v = [2, 0, 5 :: int], al_dims = [(1, 3)], al_ti = TI_PAR\<rparr>) = 1 \<and>
   (\<forall>ws g. 0 \<le> fst (discrete_sample ws g) \<and>
            fst (discrete_sample ws g) < int (max 1 (length ws))) \<and>
   b_discrete_distribution print_weights discrete_sample
       \<lparr>al_v = [2, 0, 5], al_dims = [(1, 3)], al_ti = TI_PAR\<rparr> 1 = (Inr 0, 16807)"
  using discrete_distribution_zero_based[of
      "\<lparr>al_v = [2, 0, 5 :: int], al_dims = [(1, 3)], al_ti = TI_PAR\<rparr>"
      discrete_sample print_weights 1]
    discrete_sample_contract
  by (simp add: b_discrete_distribution_def discrete_sample_def minstd_rand0_def)

text \<open>
  The result is not 1-based: with the single weight 1 a 1-based index would lie in
  \<open>1..1\<close>, and the builtin returns 0.
\<close>

theorem discrete_distribution_not_one_based:
  "fst (b_discrete_distribution print_weights discrete_sample
         \<lparr>al_v = [1], al_dims = [(1, 1)], al_ti = TI_PAR\<rparr> 1) = Inr 0 \<and>
   \<not> (1 \<le> (0 :: int) \<and> (0 :: int) \<le> int (length [1 :: int]))"
  by (simp add: b_discrete_distribution_def discrete_sample_def minstd_rand0_def)

end
